theory Spec2Isabelle
  imports Complex_Main "HOL-Library.AList"
begin

section \<open>Values\<close>

text \<open>
  The module \<open>plugins/modules/pro.py\<close> works on what \<open>json.loads\<close> returns and on the
  module parameters. Both are Python values of the JSON kinds, so one datatype serves for
  them: \<open>None\<close> is \<open>JNull\<close>, a \<open>dict\<close> is an association list in insertion order (its
  keys are strings, as in every JSON object; a dict holds a key once, and where a list
  repeats a key the first entry is the one looked up), a \<open>float\<close> is finite, infinite or
  not a number (\<open>json.loads\<close> accepts \<open>Infinity\<close> and \<open>NaN\<close>).

  A string is a list of bytes (UTF-8). The only string operation of the module besides
  equality is \<open>str.lower\<close> followed by a membership test in three lower-case ASCII words;
  no character outside ASCII has a lower-case form that consists of letters of these words,
  so lowering the ASCII capitals alone decides the test as Python does.
\<close>

datatype pyfloat = Finite rat | Infinite bool | NaN

datatype json =
    JNull
  | JBool bool
  | JInt int
  | JFloat pyfloat
  | JStr string
  | JList "json list"
  | JObj "(string \<times> json) list"

text \<open>Python's \<open>bool(v)\<close>, which is also what \<open>if v\<close>, \<open>not v\<close>, \<open>and\<close> and \<open>or\<close> test.\<close>

fun truthy :: "json \<Rightarrow> bool" where
  "truthy JNull = False"
| "truthy (JBool b) = b"
| "truthy (JInt i) = (i \<noteq> 0)"
| "truthy (JFloat f) = (f \<noteq> Finite 0)"
| "truthy (JStr s) = (s \<noteq> [])"
| "truthy (JList xs) = (xs \<noteq> [])"
| "truthy (JObj kvs) = (kvs \<noteq> [])"

text \<open>\<open>a or b\<close> and \<open>a and b\<close> return one of their operands, not a boolean.\<close>

definition py_or :: "json \<Rightarrow> json \<Rightarrow> json" where
  "py_or a b = (if truthy a then a else b)"

definition py_and :: "json \<Rightarrow> json \<Rightarrow> json" where
  "py_and a b = (if truthy a then b else a)"

text \<open>\<open>d.get(k, default)\<close>; \<open>d.get(k)\<close> is \<open>dict_get d k JNull\<close>.\<close>

definition dict_get :: "(string \<times> json) list \<Rightarrow> string \<Rightarrow> json \<Rightarrow> json" where
  "dict_get d k dflt = (case map_of d k of None \<Rightarrow> dflt | Some v \<Rightarrow> v)"

definition lower_char :: "char \<Rightarrow> char" where
  "lower_char c =
     (let n = (of_char c :: nat) in if 65 \<le> n \<and> n \<le> 90 then char_of (n + 32) else c)"

definition lower :: "string \<Rightarrow> string" where
  "lower s = map lower_char s"

text \<open>
  The exceptions that the module can raise and does not catch. What a \<open>for\<close> loop
  iterates over: the elements of a list, the one-character strings of a string, the keys of
  a dict; any other JSON value is not iterable.
\<close>

datatype exn = TypeError | AttributeError | RecursionError

fun py_iter :: "json \<Rightarrow> exn + json list" where
  "py_iter (JList xs) = Inr xs"
| "py_iter (JStr s) = Inr (map (\<lambda>c. JStr [c]) s)"
| "py_iter (JObj kvs) = Inr (map (\<lambda>kv. JStr (fst kv)) kvs)"
| "py_iter _ = Inl TypeError"

text \<open>Lists and dicts cannot be members of a \<open>set\<close>.\<close>

fun hashable :: "json \<Rightarrow> bool" where
  "hashable (JList _) = False"
| "hashable (JObj _) = False"
| "hashable _ = True"

section \<open>Interpreting the status payload\<close>

definition ENABLED :: "string list" where
  "ENABLED = [''enabled'', ''active'', ''on'']"

text \<open>\<open>_service_enabled\<close> (lines 149 to 171), called on a dict.\<close>

definition service_enabled :: "(string \<times> json) list \<Rightarrow> bool" where
  "service_enabled service =
     (case map_of service ''enabled'' of
        Some v \<Rightarrow> truthy v
      | None \<Rightarrow>
          (case dict_get service ''status'' JNull of
             JStr status \<Rightarrow> lower status \<in> set ENABLED
           | _ \<Rightarrow>
               (case dict_get service ''state'' JNull of
                  JStr state \<Rightarrow> lower state \<in> set ENABLED
                | _ \<Rightarrow> False)))"

text \<open>
  The loop of \<open>_collect_enabled_services\<close> (lines 188 to 194). An entry that is not a dict
  has no \<open>get\<close>; adding a name that is a list or a dict to the set raises.
  The set holds JSON values; the module only ever asks whether a string is a member, and a
  string is equal to no value of another kind.
\<close>

fun collect_loop :: "json list \<Rightarrow> json set \<Rightarrow> exn + json set" where
  "collect_loop [] current_enabled = Inr current_enabled"
| "collect_loop (svc # rest) current_enabled =
     (case svc of
        JObj d \<Rightarrow>
          (let name = dict_get d ''name'' JNull in
           if \<not> truthy name then collect_loop rest current_enabled
           else if service_enabled d then
             (if hashable name then collect_loop rest (insert name current_enabled)
              else Inl TypeError)
           else collect_loop rest current_enabled)
      | _ \<Rightarrow> Inl AttributeError)"

definition collect_enabled_services :: "json \<Rightarrow> exn + json set" where
  "collect_enabled_services status =
     (let service_entries =
            (case status of JObj d \<Rightarrow> dict_get d ''services'' (JList []) | _ \<Rightarrow> JList [])
      in case py_iter service_entries of
           Inl e \<Rightarrow> Inl e
         | Inr entries \<Rightarrow> collect_loop entries {})"

definition status_attached :: "json \<Rightarrow> bool" where
  "status_attached status =
     (case status of
        JObj d \<Rightarrow> (if map_of d ''attached'' \<noteq> None then truthy (dict_get d ''attached'' JNull)
                   else False)
      | _ \<Rightarrow> False)"

section \<open>The plan\<close>

text \<open>
  The module parameters after \<open>AnsibleModule\<close> has checked them against the argument
  specification: \<open>state\<close> is one of its two choices or absent, the lists hold strings.
\<close>

datatype attachment = Attached | Detached

record params =
  state :: "attachment option"
  token :: "string option"
  enabled :: "string list option"
  disabled :: "string list option"
  check_mode :: bool

text \<open>\<open>module.params.get("enabled") or []\<close>\<close>

definition or_empty :: "string list option \<Rightarrow> string list" where
  "or_empty l = (case l of None \<Rightarrow> [] | Some xs \<Rightarrow> (if xs \<noteq> [] then xs else []))"

definition str_list :: "string list \<Rightarrow> json" where
  "str_list xs = JList (map JStr xs)"

definition opt_str :: "string option \<Rightarrow> json" where
  "opt_str t = (case t of None \<Rightarrow> JNull | Some s \<Rightarrow> JStr s)"

text \<open>Line 344; the value is an operand of the expression, not always a boolean.\<close>

definition attach_needed :: "attachment option \<Rightarrow> string list \<Rightarrow> string list \<Rightarrow> bool \<Rightarrow> json" where
  "attach_needed st en dis attached =
     py_and (py_or (py_or (JBool (st = Some Attached)) (str_list en)) (str_list dis))
            (JBool (\<not> attached))"

text \<open>Line 348.\<close>

definition detach_needed :: "attachment option \<Rightarrow> bool \<Rightarrow> json" where
  "detach_needed st attached = py_and (JBool (st = Some Detached)) (JBool attached)"

text \<open>The comprehensions of lines 350, 351 (and 375, 376).\<close>

fun to_enable :: "string list \<Rightarrow> json set \<Rightarrow> string list" where
  "to_enable [] current_enabled = []"
| "to_enable (svc # rest) current_enabled =
     (if JStr svc \<notin> current_enabled then svc # to_enable rest current_enabled
      else to_enable rest current_enabled)"

fun to_disable :: "string list \<Rightarrow> json set \<Rightarrow> string list" where
  "to_disable [] current_enabled = []"
| "to_disable (svc # rest) current_enabled =
     (if JStr svc \<in> current_enabled then svc # to_disable rest current_enabled
      else to_disable rest current_enabled)"

section \<open>Running commands\<close>

text \<open>
  The outside world is a state \<open>'w\<close> and \<open>module.run_command\<close> a function on it that
  returns exit code, standard output and standard error. The system state also records
  every invocation with its answer, in order.
\<close>

type_synonym 'w runner = "string list \<Rightarrow> 'w \<Rightarrow> (int \<times> string \<times> string) \<times> 'w"

record 'w sys =
  world :: 'w
  calls :: "(string list \<times> int \<times> string \<times> string) list"

text \<open>
  How a run ends other than by \<open>exit_json\<close>: \<open>module.fail_json\<close> with its keyword
  arguments, or an uncaught exception.
\<close>

datatype failure =
    Fail_json "(string \<times> json) list"
  | Raised exn

type_synonym ('w, 'a) action = "'w sys \<Rightarrow> (failure + 'a) \<times> 'w sys"

definition succeed :: "'a \<Rightarrow> ('w, 'a) action" where
  "succeed x s = (Inr x, s)"

definition fail :: "failure \<Rightarrow> ('w, 'a) action" where
  "fail f s = (Inl f, s)"

definition and_then :: "('w, 'a) action \<Rightarrow> ('a \<Rightarrow> ('w, 'b) action) \<Rightarrow> ('w, 'b) action" where
  "and_then m f s = (case m s of (Inl e, s') \<Rightarrow> (Inl e, s') | (Inr x, s') \<Rightarrow> f x s')"

definition raise_or :: "exn + 'a \<Rightarrow> ('w, 'a) action" where
  "raise_or r = (case r of Inl e \<Rightarrow> fail (Raised e) | Inr x \<Rightarrow> succeed x)"

definition run_command :: "'w runner \<Rightarrow> string list \<Rightarrow> 'w sys \<Rightarrow> (int \<times> string \<times> string) \<times> 'w sys" where
  "run_command run args s =
     (case run args (world s) of
        (resp, w') \<Rightarrow> (resp, \<lparr>world = w', calls = calls s @ [(args, resp)]\<rparr>))"

definition command_failed :: "int \<Rightarrow> string \<Rightarrow> string \<Rightarrow> string list \<Rightarrow> failure" where
  "command_failed rc out err args =
     Fail_json [(''msg'', JStr ''command failed''), (''rc'', JInt rc), (''stdout'', JStr out),
                (''stderr'', JStr err), (''cmd'', str_list args)]"

text \<open>
  \<open>json.loads\<close> is a parameter of the model. On a text it returns a value, or raises
  \<open>ValueError\<close> (\<open>JSONDecodeError\<close> is one), or, on a text nested deeper than the
  interpreter's recursion limit, raises \<open>RecursionError\<close>. It accepts more than the JSON
  grammar: \<open>NaN\<close> and \<open>Infinity\<close> are read as floats.
\<close>

datatype loads_outcome = Loaded json | Value_error | Recursion_error

text \<open>
  \<open>_execute\<close> (lines 119 to 146). The \<open>except\<close> clause of line 145 catches
  \<open>ValueError\<close> only, so a \<open>RecursionError\<close> leaves the function and ends the run.
\<close>

definition execute :: "'w runner \<Rightarrow> (string \<Rightarrow> loads_outcome) \<Rightarrow> string list
    \<Rightarrow> ('w, json \<times> string \<times> string) action" where
  "execute run loads args s =
     (case run_command run args s of
        ((rc, out, err), s') \<Rightarrow>
          if rc \<noteq> 0 then (Inl (command_failed rc out err args), s')
          else if out = [] then (Inr (JNull, out, err), s')
          else (case loads out of
                  Loaded v \<Rightarrow> (Inr (v, out, err), s')
                | Value_error \<Rightarrow> (Inr (JObj [(''raw'', JStr out)], out, err), s')
                | Recursion_error \<Rightarrow> (Inl (Raised RecursionError), s')))"

definition get_status :: "'w runner \<Rightarrow> (string \<Rightarrow> loads_outcome) \<Rightarrow> string \<Rightarrow> ('w, json) action" where
  "get_status run loads pro =
     and_then (execute run loads [pro, ''status'', ''--wait'', ''--format=json''])
       (\<lambda>(status, _, _). succeed status)"

text \<open>
  The four actions write into the result dict and return \<open>True\<close>; here they return the
  new dict with it.
\<close>

definition maybe_attach :: "'w runner \<Rightarrow> (string \<Rightarrow> loads_outcome) \<Rightarrow> string \<Rightarrow> string
    \<Rightarrow> (string \<times> json) list \<Rightarrow> ('w, bool \<times> (string \<times> json) list) action" where
  "maybe_attach run loads pro tok result =
     and_then (execute run loads [pro, ''attach'', ''--format=json'', tok])
       (\<lambda>(attach_result, _, _).
          succeed (True, AList.update ''attach_result'' attach_result result))"

definition maybe_detach :: "'w runner \<Rightarrow> (string \<Rightarrow> loads_outcome) \<Rightarrow> string
    \<Rightarrow> (string \<times> json) list \<Rightarrow> ('w, bool \<times> (string \<times> json) list) action" where
  "maybe_detach run loads pro result =
     and_then (execute run loads [pro, ''detach'', ''--assume-yes'', ''--format=json''])
       (\<lambda>(detach_result, _, _).
          succeed (True, AList.update ''detach_result'' detach_result result))"

definition maybe_enable_services :: "'w runner \<Rightarrow> (string \<Rightarrow> loads_outcome) \<Rightarrow> string
    \<Rightarrow> string list \<Rightarrow> (string \<times> json) list \<Rightarrow> ('w, bool \<times> (string \<times> json) list) action" where
  "maybe_enable_services run loads pro to_en result =
     and_then (execute run loads ([pro, ''enable'', ''--assume-yes'', ''--format=json''] @ to_en))
       (\<lambda>(enable_result, _, _).
          succeed (True, AList.update ''enabled'' (str_list to_en)
                           (AList.update ''enable_result'' enable_result result)))"

definition maybe_disable_services :: "'w runner \<Rightarrow> (string \<Rightarrow> loads_outcome) \<Rightarrow> string
    \<Rightarrow> string list \<Rightarrow> (string \<times> json) list \<Rightarrow> ('w, bool \<times> (string \<times> json) list) action" where
  "maybe_disable_services run loads pro to_dis result =
     and_then (execute run loads ([pro, ''disable'', ''--assume-yes'', ''--format=json''] @ to_dis))
       (\<lambda>(disable_result, _, _).
          succeed (True, AList.update ''disabled'' (str_list to_dis)
                           (AList.update ''disable_result'' disable_result result)))"

section \<open>The reconciler\<close>

text \<open>
  Lines 353 to 363 of \<open>main\<close>: the result dict that \<open>exit_json\<close> receives in check
  mode.
\<close>

definition check_mode_exit :: "json \<Rightarrow> json \<Rightarrow> string list \<Rightarrow> string list
    \<Rightarrow> (string \<times> json) list \<Rightarrow> (string \<times> json) list" where
  "check_mode_exit attach_n detach_n to_en to_dis result =
     (let changed = truthy (py_or (py_or (py_or attach_n detach_n) (str_list to_en)) (str_list to_dis));
          result1 = AList.update ''changed'' (JBool changed) result;
          result2 = (if to_en \<noteq> [] then AList.update ''enabled'' (str_list to_en) result1
                     else result1);
          result3 = (if to_dis \<noteq> [] then AList.update ''disabled'' (str_list to_dis) result2
                     else result2)
      in result3)"

text \<open>
  Lines 365 to 388 of \<open>main\<close>. The variables \<open>changed\<close>, \<open>result\<close>, \<open>to_enable\<close> and
  \<open>to_disable\<close> that the statements update are passed from one statement to the next.
\<close>

definition apply_plan :: "'w runner \<Rightarrow> (string \<Rightarrow> loads_outcome) \<Rightarrow> string \<Rightarrow> string option
    \<Rightarrow> string list \<Rightarrow> string list \<Rightarrow> json \<Rightarrow> json \<Rightarrow> string list \<Rightarrow> string list
    \<Rightarrow> (string \<times> json) list \<Rightarrow> ('w, (string \<times> json) list) action" where
  "apply_plan run loads pro tok en dis attach_n detach_n to_en to_dis result =
     and_then
       (if truthy detach_n then
          and_then (maybe_detach run loads pro result)
            (\<lambda>(c, result1). succeed (False \<or> c, result1, to_en, to_dis))
        else if truthy (py_and attach_n (opt_str tok)) then
          (case tok of
             None \<Rightarrow> succeed (False, result, to_en, to_dis)
           | Some t \<Rightarrow>
               and_then (maybe_attach run loads pro t result)
                 (\<lambda>(c, result1).
               and_then (get_status run loads pro)
                 (\<lambda>status.
               let result2 = AList.update ''status'' status result1 in
               and_then (raise_or (collect_enabled_services status))
                 (\<lambda>current_enabled.
                    succeed (False \<or> c, result2,
                             to_enable en current_enabled, to_disable dis current_enabled)))))
        else succeed (False, result, to_en, to_dis))
       (\<lambda>(changed, result1, to_en1, to_dis1).
     and_then
       (if to_en1 \<noteq> [] then
          and_then (maybe_enable_services run loads pro to_en1 result1)
            (\<lambda>(c, result2). succeed (changed \<or> c, result2))
        else succeed (changed, result1))
       (\<lambda>(changed2, result2).
     and_then
       (if to_dis1 \<noteq> [] then
          and_then (maybe_disable_services run loads pro to_dis1 result2)
            (\<lambda>(c, result3). succeed (changed2 \<or> c, result3))
        else succeed (changed2, result2))
       (\<lambda>(changed3, result3).
     and_then
       (if changed3 then
          and_then (get_status run loads pro)
            (\<lambda>status. succeed (AList.update ''status'' status result3))
        else succeed result3)
       (\<lambda>result4. succeed (AList.update ''changed'' (JBool changed3) result4)))))"

text \<open>
  \<open>main\<close> from line 329 on. \<open>AnsibleModule\<close> has accepted the parameters and
  \<open>get_bin_path\<close> has found the executable \<open>pro\<close>; both belong to the framework and end
  the run themselves when they fail. The value returned is the dict given to
  \<open>exit_json\<close>.
\<close>

definition main :: "'w runner \<Rightarrow> (string \<Rightarrow> loads_outcome) \<Rightarrow> string \<Rightarrow> params
    \<Rightarrow> ('w, (string \<times> json) list) action" where
  "main run loads pro p =
     (let st = state p; tok = token p;
          en = or_empty (enabled p); dis = or_empty (disabled p)
      in
      if st = Some Detached \<and> (en \<noteq> [] \<or> dis \<noteq> []) then
        fail (Fail_json [(''msg'', JStr ''enabled/disabled cannot be used with state=detached'')])
      else
        and_then (get_status run loads pro)
          (\<lambda>status.
             let result = AList.update ''status'' status [(''changed'', JBool False)];
                 attached = status_attached status;
                 attach_n = attach_needed st en dis attached
             in
             if truthy attach_n \<and> \<not> truthy (opt_str tok) then
               fail (Fail_json [(''msg'', JStr ''token is required to attach the system'')])
             else
               let detach_n = detach_needed st attached in
               and_then (raise_or (collect_enabled_services status))
                 (\<lambda>current_enabled.
                    let to_en = to_enable en current_enabled;
                        to_dis = to_disable dis current_enabled
                    in
                    if check_mode p then
                      succeed (check_mode_exit attach_n detach_n to_en to_dis result)
                    else
                      apply_plan run loads pro tok en dis attach_n detach_n to_en to_dis result)))"

section \<open>Definitions used in the statements\<close>

text \<open>
  What \<open>_execute\<close> makes of the standard output of a command that exited with 0
  (lines 139 to 146), as one function: the parsed result, or the exception that leaves
  \<open>_execute\<close>.
\<close>

definition parse_output :: "(string \<Rightarrow> loads_outcome) \<Rightarrow> string \<Rightarrow> exn + json" where
  "parse_output loads out =
     (if out = [] then Inr JNull
      else case loads out of
             Loaded v \<Rightarrow> Inr v
           | Value_error \<Rightarrow> Inr (JObj [(''raw'', JStr out)])
           | Recursion_error \<Rightarrow> Inl RecursionError)"

text \<open>
  The precedence rule for enabled-ness as the specification words it: an explicit boolean
  field first, else a textual \<open>status\<close>, else a textual \<open>state\<close>, else disabled.
\<close>

definition claimed_service_enabled :: "(string \<times> json) list \<Rightarrow> bool" where
  "claimed_service_enabled service =
     (case map_of service ''enabled'' of
        Some (JBool b) \<Rightarrow> b
      | _ \<Rightarrow>
          (case map_of service ''status'' of
             Some (JStr status_text) \<Rightarrow> lower status_text \<in> set ENABLED
           | _ \<Rightarrow>
               (case map_of service ''state'' of
                  Some (JStr state_text) \<Rightarrow> lower state_text \<in> set ENABLED
                | _ \<Rightarrow> False)))"

text \<open>The \<open>cmd\<close> argument of a \<open>fail_json\<close> that ended the run, if there is one.\<close>

definition surfaced_cmd :: "failure + 'a \<Rightarrow> json option" where
  "surfaced_cmd r = (case r of Inl (Fail_json kwargs) \<Rightarrow> map_of kwargs ''cmd'' | _ \<Rightarrow> None)"

text \<open>
  A log is clean when every recorded command exited with 0. An action aborts on failure
  when, started on a clean log, it either leaves a clean log, or ends in exactly the
  \<open>fail_json\<close> of \<open>_execute\<close> for the last recorded command, the log before it being
  clean.
\<close>

definition ok_log :: "'w sys \<Rightarrow> bool" where
  "ok_log s = list_all (\<lambda>c. fst (snd c) = 0) (calls s)"

definition abort_post :: "(failure + 'a) \<times> 'w sys \<Rightarrow> bool" where
  "abort_post rs =
     (case rs of
        (Inr x, s') \<Rightarrow> ok_log s'
      | (Inl f, s') \<Rightarrow>
          ok_log s' \<or>
          (\<exists>cs args rc out err. calls s' = cs @ [(args, rc, out, err)] \<and>
             list_all (\<lambda>c. fst (snd c) = 0) cs \<and> f = command_failed rc out err args))"

definition aborting :: "('w, 'a) action \<Rightarrow> bool" where
  "aborting m = (\<forall>s. ok_log s \<longrightarrow> abort_post (m s))"

text \<open>
  The argument vectors that a run with the executable \<open>pro\<close> and the parameters \<open>p\<close>
  can give to \<open>run_command\<close>: the five shapes of lines 224, 241, 258, 278 and 301, each
  starting with the path of the executable. The token of an attach is the token of the
  parameters; the services of an enable or a disable are a non-empty plan computed from
  the desired list and some set of enabled services.
\<close>

definition pro_command :: "string \<Rightarrow> params \<Rightarrow> string list \<Rightarrow> bool" where
  "pro_command pro p args =
     (args = [pro, ''status'', ''--wait'', ''--format=json''] \<or>
      (\<exists>t. token p = Some t \<and> args = [pro, ''attach'', ''--format=json'', t]) \<or>
      args = [pro, ''detach'', ''--assume-yes'', ''--format=json''] \<or>
      (\<exists>C. to_enable (or_empty (enabled p)) C \<noteq> [] \<and>
           args = pro # ''enable'' # ''--assume-yes'' # ''--format=json'' #
                    to_enable (or_empty (enabled p)) C) \<or>
      (\<exists>C. to_disable (or_empty (disabled p)) C \<noteq> [] \<and>
           args = pro # ''disable'' # ''--assume-yes'' # ''--format=json'' #
                    to_disable (or_empty (disabled p)) C))"

definition good_log :: "string \<Rightarrow> params \<Rightarrow> 'w sys \<Rightarrow> bool" where
  "good_log pro p s = list_all (\<lambda>c. pro_command pro p (fst c)) (calls s)"

text \<open>
  An action keeps the shapes when, started on a log of such vectors, it leaves a log of
  such vectors, and what it returns satisfies \<open>Q\<close>.
\<close>

definition shaped :: "string \<Rightarrow> params \<Rightarrow> ('w, 'a) action \<Rightarrow> ('a \<Rightarrow> bool) \<Rightarrow> bool" where
  "shaped pro p m Q =
     (\<forall>s. good_log pro p s \<longrightarrow>
          (case m s of
             (Inr x, s') \<Rightarrow> good_log pro p s' \<and> Q x
           | (Inl f, s') \<Rightarrow> good_log pro p s'))"

text \<open>
  The first statement of lines 367 to 376 leaves both lists as plans computed from the
  desired lists, whether it recomputes them or not.
\<close>

definition plans_of :: "params \<Rightarrow> bool \<times> (string \<times> json) list \<times> string list \<times> string list \<Rightarrow> bool" where
  "plans_of p x =
     (case x of (c, r, te, td) \<Rightarrow>
        (\<exists>C. te = to_enable (or_empty (enabled p)) C) \<and>
        (\<exists>C. td = to_disable (or_empty (disabled p)) C))"

subsection \<open>Example hosts\<close>

text \<open>
  Four stand-ins for the \<open>pro\<close> executable and one for \<open>json.loads\<close> on the texts
  they print. The attached host has \<open>esm-apps\<close> enabled and fails every command but
  \<open>status\<close> with exit code 1; the unattached host answers \<open>status\<close> only; the chatty
  host answers every command with a line that is not JSON; the nesting host answers every
  command with 2000 opening brackets, a text on which \<open>json.loads\<close> raises
  \<open>RecursionError\<close>.
\<close>

definition deep_text :: string where
  "deep_text = replicate 2000 (CHR ''['')"

definition attached_status_text :: string where
  "attached_status_text =
     ''{\"attached\": true, \"services\": [{\"name\": \"esm-apps\", \"status\": \"enabled\"}]}''"

definition attached_status :: json where
  "attached_status =
     JObj [(''attached'', JBool True),
           (''services'', JList [JObj [(''name'', JStr ''esm-apps''), (''status'', JStr ''enabled'')]])]"

definition unattached_status_text :: string where
  "unattached_status_text = ''{\"attached\": false, \"services\": []}''"

definition unattached_status :: json where
  "unattached_status = JObj [(''attached'', JBool False), (''services'', JList [])]"

definition demo_loads :: "string \<Rightarrow> loads_outcome" where
  "demo_loads out =
     (if out = attached_status_text then Loaded attached_status
      else if out = unattached_status_text then Loaded unattached_status
      else if out = deep_text then Recursion_error
      else Value_error)"

definition attached_host :: "unit runner" where
  "attached_host args w =
     (if args = [''/usr/bin/pro'', ''status'', ''--wait'', ''--format=json'']
      then ((0, attached_status_text, []), w)
      else ((1, [], ''Failed to enable livepatch''), w))"

definition unattached_host :: "unit runner" where
  "unattached_host args w =
     (if args = [''/usr/bin/pro'', ''status'', ''--wait'', ''--format=json'']
      then ((0, unattached_status_text, []), w)
      else ((0, [], []), w))"

definition chatty_host :: "unit runner" where
  "chatty_host args w = ((0, ''This machine is now detached.'', []), w)"

definition nesting_host :: "unit runner" where
  "nesting_host args w = ((0, deep_text, []), w)"

definition fresh :: "unit sys" where
  "fresh = \<lparr>world = (), calls = []\<rparr>"

section \<open>Basic facts\<close>

lemma truthy_py_or: "truthy (py_or a b) = (truthy a \<or> truthy b)"
  by (simp add: py_or_def)

lemma truthy_py_and: "truthy (py_and a b) = (truthy a \<and> truthy b)"
  by (simp add: py_and_def)

lemma truthy_str_list: "truthy (str_list xs) = (xs \<noteq> [])"
  by (simp add: str_list_def)

lemma to_enable_filter: "to_enable E C = filter (\<lambda>svc. JStr svc \<notin> C) E"
  by (induction E) simp_all

lemma to_disable_filter: "to_disable D C = filter (\<lambda>svc. JStr svc \<in> C) D"
  by (induction D) simp_all

text \<open>The set the loop returns: the truthy names of the entries that are enabled.\<close>

lemma collect_loop_names:
  "collect_loop entries acc = Inr C \<Longrightarrow>
   C = acc \<union> {dict_get d ''name'' JNull | d.
                 JObj d \<in> set entries \<and> truthy (dict_get d ''name'' JNull) \<and> service_enabled d}"
proof (induction entries arbitrary: acc)
  case Nil
  then show ?case by simp
next
  case (Cons svc rest)
  then show ?case
    by (cases svc) (auto simp: Let_def split: if_splits)
qed

lemma collect_enabled_services_names:
  assumes "map_of d ''services'' = Some (JList entries)"
    and "collect_enabled_services (JObj d) = Inr C"
  shows "C = {dict_get e ''name'' JNull | e.
                JObj e \<in> set entries \<and> truthy (dict_get e ''name'' JNull) \<and> service_enabled e}"
  using assms collect_loop_names [of entries "{}" C]
  by (simp add: collect_enabled_services_def dict_get_def)

lemma textual_field:
  "(case dict_get d k JNull of JStr s \<Rightarrow> f s | _ \<Rightarrow> g) =
   (case map_of d k of Some (JStr s) \<Rightarrow> f s | _ \<Rightarrow> g)"
  by (simp add: dict_get_def split: option.splits json.splits)

lemma execute_eq:
  "execute run loads args s =
     (case run args (world s) of
        ((rc, out, err), w') \<Rightarrow>
          (if rc \<noteq> 0 then Inl (command_failed rc out err args)
           else (case parse_output loads out of
                   Inl e \<Rightarrow> Inl (Raised e)
                 | Inr v \<Rightarrow> Inr (v, out, err)),
           \<lparr>world = w', calls = calls s @ [(args, rc, out, err)]\<rparr>))"
  by (simp add: execute_def run_command_def parse_output_def
      split: prod.splits loads_outcome.splits)

lemma get_status_eq:
  "get_status run loads pro s =
     (case run [pro, ''status'', ''--wait'', ''--format=json''] (world s) of
        ((rc, out, err), w') \<Rightarrow>
          (if rc \<noteq> 0
           then Inl (command_failed rc out err [pro, ''status'', ''--wait'', ''--format=json''])
           else (case parse_output loads out of
                   Inl e \<Rightarrow> Inl (Raised e)
                 | Inr v \<Rightarrow> Inr v),
           \<lparr>world = w',
            calls = calls s @ [([pro, ''status'', ''--wait'', ''--format=json''], rc, out, err)]\<rparr>))"
  by (simp add: get_status_def and_then_def execute_eq succeed_def split: prod.splits sum.splits)

lemma deep_text_hd: "deep_text \<noteq> [] \<and> hd deep_text = CHR ''[''"
  by (simp add: deep_text_def)

lemma deep_text_other: "hd s \<noteq> CHR ''['' \<Longrightarrow> deep_text \<noteq> s \<and> s \<noteq> deep_text"
  using deep_text_hd by auto

lemma deep_text_neq:
  "deep_text \<noteq> attached_status_text"
  "deep_text \<noteq> unattached_status_text"
  "''This machine is now detached.'' \<noteq> deep_text"
  using deep_text_other [of attached_status_text] deep_text_other [of unattached_status_text]
    deep_text_other [of "''This machine is now detached.''"]
  by (simp_all add: attached_status_text_def unattached_status_text_def)

lemmas eval_defs =
  main_def apply_plan_def check_mode_exit_def Let_def and_then_def succeed_def fail_def
  raise_or_def get_status_def maybe_attach_def maybe_detach_def maybe_enable_services_def
  maybe_disable_services_def execute_def run_command_def command_failed_def
  status_attached_def collect_enabled_services_def dict_get_def service_enabled_def
  lower_def lower_char_def char_of_eq_iff ENABLED_def attach_needed_def detach_needed_def
  py_and_def py_or_def str_list_def opt_str_def or_empty_def parse_output_def
  demo_loads_def attached_host_def unattached_host_def chatty_host_def fresh_def
  attached_status_text_def attached_status_def unattached_status_text_def
  unattached_status_def

section \<open>Properties of the plan\<close>

text \<open>
  C1. For a snapshot whose set of enabled services is \<open>C\<close>, \<open>to_enable\<close> is the desired
  enable list without the members of \<open>C\<close> and \<open>to_disable\<close> is the desired disable list
  restricted to the members of \<open>C\<close>, each in the order of its list.
\<close>

theorem diff_correctness:
  assumes "collect_enabled_services status = Inr C"
  shows "to_enable E C = filter (\<lambda>svc. JStr svc \<notin> C) E \<and>
         to_disable D C = filter (\<lambda>svc. JStr svc \<in> C) D"
  by (simp add: to_enable_filter to_disable_filter)

theorem diff_correctness_witness:
  "collect_enabled_services attached_status = Inr {JStr ''esm-apps''} \<and>
   to_enable [''esm-apps'', ''livepatch''] {JStr ''esm-apps''} = [''livepatch''] \<and>
   to_disable [''livepatch'', ''esm-apps''] {JStr ''esm-apps''} = [''esm-apps'']"
proof -
  have c: "collect_enabled_services attached_status = Inr {JStr ''esm-apps''}"
    by (simp add: eval_defs)
  from diff_correctness [OF c, of "[''esm-apps'', ''livepatch'']" "[''livepatch'', ''esm-apps'']"] c
  show ?thesis by simp
qed

text \<open>
  C5. The value of \<open>attach_needed\<close> is true exactly when the state is \<open>attached\<close> or one of
  the two lists is non-empty, and the snapshot is not attached; so it is true for a
  non-empty list on a host that is not attached also when no state is given.
\<close>

theorem attach_inference:
  "(truthy (attach_needed st en dis (status_attached status)) \<longleftrightarrow>
      (st = Some Attached \<or> en \<noteq> [] \<or> dis \<noteq> []) \<and> \<not> status_attached status) \<and>
   ((en \<noteq> [] \<or> dis \<noteq> []) \<and> \<not> status_attached status \<longrightarrow>
      truthy (attach_needed None en dis (status_attached status)))"
  by (simp add: attach_needed_def truthy_py_or truthy_py_and truthy_str_list)

theorem attach_inference_witness:
  "\<not> status_attached unattached_status \<and>
   truthy (attach_needed None [''livepatch''] [] (status_attached unattached_status)) \<and>
   \<not> truthy (attach_needed (Some Attached) [''livepatch''] [] (status_attached attached_status))"
  using attach_inference [of None "[''livepatch'']" "[]" unattached_status]
    attach_inference [of "Some Attached" "[''livepatch'']" "[]" attached_status]
  by (simp add: status_attached_def unattached_status_def attached_status_def dict_get_def)

text \<open>
  C6. No desired state and no snapshot make \<open>attach_needed\<close> and \<open>detach_needed\<close> both
  true.
\<close>

theorem attach_detach_exclusive:
  "\<not> (truthy (attach_needed st en dis (status_attached status)) \<and>
      truthy (detach_needed st (status_attached status)))"
  by (simp add: attach_needed_def detach_needed_def truthy_py_or truthy_py_and truthy_str_list)

theorem attach_detach_exclusive_witness:
  "truthy (detach_needed (Some Detached) (status_attached attached_status)) \<and>
   \<not> truthy (attach_needed (Some Detached) [] [] (status_attached attached_status))"
  using attach_detach_exclusive [of "Some Detached" "[]" "[]" attached_status]
  by (simp add: detach_needed_def truthy_py_and status_attached_def attached_status_def
      dict_get_def)

text \<open>
  C9. The two lists of a plan computed from one snapshot have no service in common: a
  service named in both desired lists is in \<open>to_disable\<close> only when it is enabled and in
  \<open>to_enable\<close> only when it is not.
\<close>

theorem to_enable_to_disable_disjoint:
  "set (to_enable E C) \<inter> set (to_disable D C) = {} \<and>
   (\<forall>svc. svc \<in> set E \<and> svc \<in> set D \<longrightarrow>
      (if JStr svc \<in> C
       then svc \<in> set (to_disable D C) \<and> svc \<notin> set (to_enable E C)
       else svc \<in> set (to_enable E C) \<and> svc \<notin> set (to_disable D C)))"
  by (auto simp: to_enable_filter to_disable_filter)

theorem to_enable_to_disable_disjoint_witness:
  "''esm-apps'' \<in> set (to_disable [''livepatch'', ''esm-apps''] {JStr ''esm-apps''}) \<and>
   ''esm-apps'' \<notin> set (to_enable [''esm-apps'', ''livepatch''] {JStr ''esm-apps''}) \<and>
   ''livepatch'' \<in> set (to_enable [''esm-apps'', ''livepatch''] {JStr ''esm-apps''}) \<and>
   ''livepatch'' \<notin> set (to_disable [''livepatch'', ''esm-apps''] {JStr ''esm-apps''})"
  using to_enable_to_disable_disjoint
    [of "[''esm-apps'', ''livepatch'']" "{JStr ''esm-apps''}" "[''livepatch'', ''esm-apps'']"]
  by simp

section \<open>Enabled-ness of a service entry\<close>

text \<open>
  C4, amended. For every service entry whose \<open>enabled\<close> field, when it has one, is a
  boolean, the precedence is as the specification says: the boolean; without that field a
  textual \<open>status\<close> tested against the vocabulary in lower case; without a textual
  \<open>status\<close> a textual \<open>state\<close> tested the same way; else disabled.
\<close>

theorem service_enabled_precedence:
  assumes "\<forall>v. map_of service ''enabled'' = Some v \<longrightarrow> (\<exists>b. v = JBool b)"
  shows "service_enabled service = claimed_service_enabled service"
proof (cases "map_of service ''enabled''")
  case None
  then show ?thesis
    unfolding service_enabled_def claimed_service_enabled_def textual_field by simp
next
  case (Some v)
  with assms obtain b where "v = JBool b" by auto
  with Some show ?thesis
    by (simp add: service_enabled_def claimed_service_enabled_def)
qed

theorem service_enabled_precedence_witness:
  "service_enabled [(''name'', JStr ''esm-apps''), (''status'', JStr ''Active'')] \<and>
   service_enabled [(''name'', JStr ''esm-apps''), (''enabled'', JBool True)] \<and>
   \<not> service_enabled [(''name'', JStr ''esm-apps'')]"
proof -
  have h1: "\<forall>v. map_of [(''name'', JStr ''esm-apps''), (''status'', JStr ''Active'')] ''enabled'' = Some v
              \<longrightarrow> (\<exists>b. v = JBool b)"
    by simp
  have h2: "\<forall>v. map_of [(''name'', JStr ''esm-apps''), (''enabled'', JBool True)] ''enabled'' = Some v
              \<longrightarrow> (\<exists>b. v = JBool b)"
    by auto
  have h3: "\<forall>v. map_of [(''name'', JStr ''esm-apps'')] ''enabled'' = Some v \<longrightarrow> (\<exists>b. v = JBool b)"
    by simp
  show ?thesis
    unfolding service_enabled_precedence [OF h1] service_enabled_precedence [OF h2]
      service_enabled_precedence [OF h3]
    by (simp add: claimed_service_enabled_def lower_def lower_char_def char_of_eq_iff ENABLED_def)
qed

text \<open>
  The claim as stated fails for an entry whose \<open>enabled\<close> field is not a boolean: the
  entry below has no boolean field, no \<open>status\<close> and no \<open>state\<close>, so the stated rule makes it
  disabled, and \<open>_service_enabled\<close> returns \<open>True\<close> for it.
\<close>

theorem service_enabled_non_boolean_counterexample:
  "service_enabled [(''name'', JStr ''livepatch''), (''enabled'', JStr ''no'')] \<and>
   \<not> claimed_service_enabled [(''name'', JStr ''livepatch''), (''enabled'', JStr ''no'')]"
  by (simp add: service_enabled_def claimed_service_enabled_def)

text \<open>
  C10. An entry with an \<open>enabled\<close> key of any type is enabled exactly when the value of
  the key is truthy, whatever else the entry holds: it is enabled for the strings
  \<open>disabled\<close> and \<open>no\<close>, and disabled for \<open>0\<close> and the empty string.
\<close>

theorem enabled_key_truthiness:
  assumes "map_of service ''enabled'' = Some v"
  shows "service_enabled service = truthy v \<and>
         (v = JStr ''disabled'' \<or> v = JStr ''no'' \<longrightarrow> service_enabled service) \<and>
         (v = JInt 0 \<or> v = JStr [] \<longrightarrow> \<not> service_enabled service)"
  using assms by (auto simp: service_enabled_def)

theorem enabled_key_truthiness_witness:
  "service_enabled [(''name'', JStr ''livepatch''), (''enabled'', JStr ''disabled''),
                    (''status'', JStr ''disabled'')] \<and>
   \<not> service_enabled [(''name'', JStr ''livepatch''), (''enabled'', JInt 0),
                      (''status'', JStr ''enabled'')]"
  using enabled_key_truthiness [of "[(''name'', JStr ''livepatch''), (''enabled'', JStr ''disabled''),
                    (''status'', JStr ''disabled'')]" "JStr ''disabled''"]
    enabled_key_truthiness [of "[(''name'', JStr ''livepatch''), (''enabled'', JInt 0),
                      (''status'', JStr ''enabled'')]" "JInt 0"]
  by simp

section \<open>Properties of command execution\<close>

text \<open>
  C8, amended. When a command exits with 0, an empty standard output gives the parsed
  result \<open>None\<close>, and a non-empty standard output that \<open>json.loads\<close> rejects with a
  \<open>ValueError\<close> gives the dict that holds the text under \<open>raw\<close>; \<open>_execute\<close> returns in
  both cases. Reading such a result as a status raises nothing either: the host then counts
  as not attached, with no service enabled.
\<close>

theorem lenient_output_parsing:
  assumes "run args (world s) = ((0, out, err), w')"
  shows "(out = [] \<longrightarrow>
            execute run loads args s =
              (Inr (JNull, out, err),
               \<lparr>world = w', calls = calls s @ [(args, 0, out, err)]\<rparr>)) \<and>
         (out \<noteq> [] \<and> loads out = Value_error \<longrightarrow>
            execute run loads args s =
              (Inr (JObj [(''raw'', JStr out)], out, err),
               \<lparr>world = w', calls = calls s @ [(args, 0, out, err)]\<rparr>)) \<and>
         \<not> status_attached JNull \<and> collect_enabled_services JNull = Inr {} \<and>
         \<not> status_attached (JObj [(''raw'', JStr out)]) \<and>
         collect_enabled_services (JObj [(''raw'', JStr out)]) = Inr {}"
  using assms
  by (simp add: execute_def run_command_def status_attached_def collect_enabled_services_def
      dict_get_def)

theorem lenient_output_parsing_witness:
  "execute unattached_host demo_loads [''/usr/bin/pro'', ''detach'', ''--assume-yes'', ''--format=json'']
     fresh =
     (Inr (JNull, [], []),
      \<lparr>world = (),
       calls = [([''/usr/bin/pro'', ''detach'', ''--assume-yes'', ''--format=json''], 0, [], [])]\<rparr>) \<and>
   execute chatty_host demo_loads [''/usr/bin/pro'', ''detach'', ''--assume-yes'', ''--format=json'']
     fresh =
     (Inr (JObj [(''raw'', JStr ''This machine is now detached.'')],
           ''This machine is now detached.'', []),
      \<lparr>world = (),
       calls = [([''/usr/bin/pro'', ''detach'', ''--assume-yes'', ''--format=json''], 0,
                 ''This machine is now detached.'', [])]\<rparr>)"
proof -
  have r1: "unattached_host [''/usr/bin/pro'', ''detach'', ''--assume-yes'', ''--format=json'']
              (world fresh) = ((0, [], []), ())"
    by (simp add: unattached_host_def)
  have r2: "chatty_host [''/usr/bin/pro'', ''detach'', ''--assume-yes'', ''--format=json'']
              (world fresh) = ((0, ''This machine is now detached.'', []), ())"
    by (simp add: chatty_host_def)
  have n: "demo_loads ''This machine is now detached.'' = Value_error"
    by (simp add: demo_loads_def attached_status_text_def unattached_status_text_def
        deep_text_neq)
  note t1 = lenient_output_parsing [where run = unattached_host and s = fresh
      and args = "[''/usr/bin/pro'', ''detach'', ''--assume-yes'', ''--format=json'']"
      and out = "[]" and err = "[]" and w' = "()" and loads = demo_loads]
  note t2 = lenient_output_parsing [where run = chatty_host and s = fresh
      and args = "[''/usr/bin/pro'', ''detach'', ''--assume-yes'', ''--format=json'']"
      and out = "''This machine is now detached.''" and err = "[]" and w' = "()"
      and loads = demo_loads]
  from t1 [OF r1] t2 [OF r2] n show ?thesis by (simp add: fresh_def)
qed

text \<open>
  The claim as stated fails for a standard output that is not JSON and on which
  \<open>json.loads\<close> raises something other than \<open>ValueError\<close>: the status command of the
  nesting host exits with 0 and prints 2000 opening brackets, \<open>json.loads\<close> raises
  \<open>RecursionError\<close> on them, line 145 does not catch it, and the run ends with that
  exception instead of a result.
\<close>

theorem deeply_nested_output_counterexample:
  "deep_text \<noteq> [] \<and>
   execute nesting_host demo_loads [''/usr/bin/pro'', ''status'', ''--wait'', ''--format=json''] fresh =
     (Inl (Raised RecursionError),
      \<lparr>world = (),
       calls = [([''/usr/bin/pro'', ''status'', ''--wait'', ''--format=json''], 0, deep_text, [])]\<rparr>) \<and>
   main nesting_host demo_loads ''/usr/bin/pro''
     \<lparr>state = None, token = None, enabled = None, disabled = None, check_mode = False\<rparr> fresh =
     (Inl (Raised RecursionError),
      \<lparr>world = (),
       calls = [([''/usr/bin/pro'', ''status'', ''--wait'', ''--format=json''], 0, deep_text, [])]\<rparr>)"
proof -
  have d: "demo_loads deep_text = Recursion_error"
    by (simp add: demo_loads_def deep_text_neq)
  have p: "parse_output demo_loads deep_text = Inl RecursionError"
    by (simp add: parse_output_def d deep_text_hd)
  show ?thesis
    by (simp add: deep_text_hd main_def Let_def and_then_def fail_def get_status_eq execute_eq
        nesting_host_def fresh_def p or_empty_def)
qed

section \<open>Properties of the reconciler\<close>

text \<open>
  C3, amended. When an attach is implied (the state is \<open>attached\<close>, or a list is not
  empty, and the status read shows a host that is not attached) and no token is given, the
  run fails with a validation error, and the status read is the only external call made
  before that failure. (With the state \<open>detached\<close> and a non-empty list the run has
  failed before, with the other validation error and no call at all.)
\<close>

theorem missing_token_fails_after_status_read:
  assumes implied: "state p = Some Attached \<or> or_empty (enabled p) \<noteq> [] \<or> or_empty (disabled p) \<noteq> []"
    and no_token: "token p = None \<or> token p = Some []"
    and status_read: "run [pro, ''status'', ''--wait'', ''--format=json''] (world s) = ((0, out, err), w')"
    and parsed: "parse_output loads out = Inr status"
    and not_attached: "\<not> status_attached status"
  shows "main run loads pro p s =
     (if state p = Some Detached then
        (Inl (Fail_json [(''msg'', JStr ''enabled/disabled cannot be used with state=detached'')]), s)
      else
        (Inl (Fail_json [(''msg'', JStr ''token is required to attach the system'')]),
         \<lparr>world = w',
          calls = calls s @ [([pro, ''status'', ''--wait'', ''--format=json''], 0, out, err)]\<rparr>))"
  using assms
  by (auto simp: main_def Let_def fail_def and_then_def get_status_eq
      attach_needed_def truthy_py_or truthy_py_and truthy_str_list opt_str_def)

theorem missing_token_fails_after_status_read_witness:
  "main unattached_host demo_loads ''/usr/bin/pro''
     \<lparr>state = Some Attached, token = None, enabled = None, disabled = None, check_mode = False\<rparr>
     fresh =
     (Inl (Fail_json [(''msg'', JStr ''token is required to attach the system'')]),
      \<lparr>world = (),
       calls = [([''/usr/bin/pro'', ''status'', ''--wait'', ''--format=json''], 0,
                 unattached_status_text, [])]\<rparr>)"
proof -
  have r: "unattached_host [''/usr/bin/pro'', ''status'', ''--wait'', ''--format=json''] (world fresh)
             = ((0, unattached_status_text, []), ())"
    by (simp add: unattached_host_def)
  have q: "parse_output demo_loads unattached_status_text = Inr unattached_status"
    by (simp add: parse_output_def demo_loads_def unattached_status_text_def
        attached_status_text_def)
  have a: "\<not> status_attached unattached_status"
    by (simp add: unattached_status_def status_attached_def dict_get_def)
  note t = missing_token_fails_after_status_read [where run = unattached_host and s = fresh
      and pro = "''/usr/bin/pro''" and out = unattached_status_text and err = "[]" and w' = "()"
      and loads = demo_loads and status = unattached_status
      and p = "\<lparr>state = Some Attached, token = None, enabled = None, disabled = None,
                check_mode = False\<rparr>"]
  from t [OF _ _ r q a] show ?thesis by (simp add: fresh_def)
qed

text \<open>
  The claim as stated fails: with a non-empty enable list, no state and no token on a host
  that is not attached, the run does fail with the validation error, but the status
  command has been run before it.
\<close>

theorem missing_token_status_read_precedes_failure:
  "fst (main unattached_host demo_loads ''/usr/bin/pro''
          \<lparr>state = None, token = None, enabled = Some [''livepatch''], disabled = None,
           check_mode = False\<rparr> fresh) =
     Inl (Fail_json [(''msg'', JStr ''token is required to attach the system'')]) \<and>
   calls (snd (main unattached_host demo_loads ''/usr/bin/pro''
          \<lparr>state = None, token = None, enabled = Some [''livepatch''], disabled = None,
           check_mode = False\<rparr> fresh)) =
     [([''/usr/bin/pro'', ''status'', ''--wait'', ''--format=json''], 0, unattached_status_text, [])] \<and>
   calls (snd (main unattached_host demo_loads ''/usr/bin/pro''
          \<lparr>state = None, token = None, enabled = Some [''livepatch''], disabled = None,
           check_mode = False\<rparr> fresh)) \<noteq> []"
  by (simp add: main_def Let_def fail_def and_then_def get_status_eq or_empty_def
      unattached_host_def fresh_def parse_output_def demo_loads_def unattached_status_text_def
      attached_status_text_def unattached_status_def status_attached_def dict_get_def
      attach_needed_def truthy_py_or truthy_py_and truthy_str_list opt_str_def)

text \<open>What the result dict of the check-mode exit holds.\<close>

lemma check_mode_exit_changed:
  "map_of (check_mode_exit a d te td result) ''changed'' =
     Some (JBool (truthy a \<or> truthy d \<or> te \<noteq> [] \<or> td \<noteq> []))"
  by (simp add: check_mode_exit_def Let_def update_conv' truthy_py_or truthy_str_list)

lemma check_mode_exit_other:
  "k \<noteq> ''changed'' \<Longrightarrow> k \<noteq> ''enabled'' \<Longrightarrow> k \<noteq> ''disabled'' \<Longrightarrow>
   map_of (check_mode_exit a d te td result) k = map_of result k"
  by (simp add: check_mode_exit_def Let_def update_conv')

lemma check_mode_exit_enabled:
  "map_of result ''enabled'' = None \<Longrightarrow>
   map_of (check_mode_exit a d te td result) ''enabled'' =
     (if te \<noteq> [] then Some (str_list te) else None)"
  by (simp add: check_mode_exit_def Let_def update_conv')

lemma check_mode_exit_disabled:
  "map_of result ''disabled'' = None \<Longrightarrow>
   map_of (check_mode_exit a d te td result) ''disabled'' =
     (if td \<noteq> [] then Some (str_list td) else None)"
  by (simp add: check_mode_exit_def Let_def update_conv')

text \<open>
  C2. In check mode a run makes no external call but the status read. When it returns a
  result, the \<open>changed\<close> field of the result is true exactly when \<open>attach_needed\<close> or
  \<open>detach_needed\<close> is true or \<open>to_enable\<close> or \<open>to_disable\<close> is not empty, the fields
  \<open>enabled\<close> and \<open>disabled\<close> hold the predicted lists when these are not empty (and are
  absent otherwise), and none of the four \<open>*_result\<close> fields is present.
\<close>

theorem check_mode_is_pure:
  assumes cm: "check_mode p" and m: "main run loads pro p s = (r, s')"
  shows "(calls s' = calls s \<or>
          (\<exists>resp. calls s' = calls s @ [([pro, ''status'', ''--wait'', ''--format=json''], resp)])) \<and>
         (\<forall>result. r = Inr result \<longrightarrow>
            (\<exists>out err status C.
               calls s' = calls s @ [([pro, ''status'', ''--wait'', ''--format=json''], 0, out, err)] \<and>
               parse_output loads out = Inr status \<and>
               collect_enabled_services status = Inr C \<and>
               map_of result ''status'' = Some status \<and>
               map_of result ''changed'' = Some (JBool
                 (truthy (attach_needed (state p) (or_empty (enabled p)) (or_empty (disabled p))
                            (status_attached status)) \<or>
                  truthy (detach_needed (state p) (status_attached status)) \<or>
                  to_enable (or_empty (enabled p)) C \<noteq> [] \<or>
                  to_disable (or_empty (disabled p)) C \<noteq> [])) \<and>
               map_of result ''enabled'' =
                 (if to_enable (or_empty (enabled p)) C \<noteq> []
                  then Some (str_list (to_enable (or_empty (enabled p)) C)) else None) \<and>
               map_of result ''disabled'' =
                 (if to_disable (or_empty (disabled p)) C \<noteq> []
                  then Some (str_list (to_disable (or_empty (disabled p)) C)) else None) \<and>
               map_of result ''attach_result'' = None \<and>
               map_of result ''detach_result'' = None \<and>
               map_of result ''enable_result'' = None \<and>
               map_of result ''disable_result'' = None))"
  using assms
  apply (simp add: main_def Let_def fail_def and_then_def get_status_eq succeed_def raise_or_def
         split: if_splits prod.splits sum.splits)
     apply (auto simp: check_mode_exit_changed check_mode_exit_other check_mode_exit_enabled
         check_mode_exit_disabled)
  done

theorem check_mode_is_pure_witness:
  "main attached_host demo_loads ''/usr/bin/pro''
     \<lparr>state = None, token = None, enabled = Some [''esm-apps'', ''livepatch''],
      disabled = None, check_mode = True\<rparr> fresh =
     (Inr [(''changed'', JBool True), (''status'', attached_status),
           (''enabled'', JList [JStr ''livepatch''])],
      \<lparr>world = (),
       calls = [([''/usr/bin/pro'', ''status'', ''--wait'', ''--format=json''], 0,
                 attached_status_text, [])]\<rparr>) \<and>
   map_of [(''changed'', JBool True), (''status'', attached_status),
           (''enabled'', JList [JStr ''livepatch''])] ''enable_result'' = None"
proof -
  have m: "main attached_host demo_loads ''/usr/bin/pro''
     \<lparr>state = None, token = None, enabled = Some [''esm-apps'', ''livepatch''],
      disabled = None, check_mode = True\<rparr> fresh =
     (Inr [(''changed'', JBool True), (''status'', attached_status),
           (''enabled'', JList [JStr ''livepatch''])],
      \<lparr>world = (),
       calls = [([''/usr/bin/pro'', ''status'', ''--wait'', ''--format=json''], 0,
                 attached_status_text, [])]\<rparr>)"
    by (simp add: eval_defs)
  have cm: "check_mode \<lparr>state = None, token = None, enabled = Some [''esm-apps'', ''livepatch''],
      disabled = None, check_mode = True\<rparr>"
    by simp
  from check_mode_is_pure [OF cm m] m show ?thesis by simp
qed


subsection \<open>A failing command ends the run\<close>

lemma aborting_succeed: "aborting (succeed x)"
  by (simp add: aborting_def abort_post_def succeed_def)

lemma aborting_fail: "aborting (fail f)"
  by (simp add: aborting_def abort_post_def fail_def)

lemma aborting_raise_or: "aborting (raise_or r)"
  by (cases r) (simp_all add: raise_or_def aborting_succeed aborting_fail)

lemma aborting_and_then:
  assumes "aborting m" and "\<And>x. aborting (f x)"
  shows "aborting (and_then m f)"
  unfolding aborting_def
proof (intro allI impI)
  fix s :: "'a sys"
  assume ok: "ok_log s"
  obtain r s1 where ms: "m s = (r, s1)" by (cases "m s")
  from assms(1) ok have "abort_post (m s)" by (simp add: aborting_def)
  with ms have post: "abort_post (r, s1)" by simp
  show "abort_post (and_then m f s)"
  proof (cases r)
    case (Inl e)
    with ms post show ?thesis by (simp add: and_then_def abort_post_def)
  next
    case (Inr x)
    with post have "ok_log s1" by (simp add: abort_post_def)
    with assms(2) [of x] have "abort_post (f x s1)" by (simp add: aborting_def)
    with ms Inr show ?thesis by (simp add: and_then_def)
  qed
qed

lemma aborting_execute: "aborting (execute run loads args)"
  by (auto simp: aborting_def abort_post_def execute_eq ok_log_def split: prod.splits sum.splits)

lemma aborting_get_status: "aborting (get_status run loads pro)"
  unfolding get_status_def
  by (intro aborting_and_then aborting_execute) (simp add: aborting_succeed split: prod.splits)

lemma aborting_maybe_attach: "aborting (maybe_attach run loads pro t result)"
  unfolding maybe_attach_def
  by (intro aborting_and_then aborting_execute) (simp add: aborting_succeed split: prod.splits)

lemma aborting_maybe_detach: "aborting (maybe_detach run loads pro result)"
  unfolding maybe_detach_def
  by (intro aborting_and_then aborting_execute) (simp add: aborting_succeed split: prod.splits)

lemma aborting_maybe_enable: "aborting (maybe_enable_services run loads pro te result)"
  unfolding maybe_enable_services_def
  by (intro aborting_and_then aborting_execute) (simp add: aborting_succeed split: prod.splits)

lemma aborting_maybe_disable: "aborting (maybe_disable_services run loads pro td result)"
  unfolding maybe_disable_services_def
  by (intro aborting_and_then aborting_execute) (simp add: aborting_succeed split: prod.splits)

lemma aborting_if: "aborting m1 \<Longrightarrow> aborting m2 \<Longrightarrow> aborting (if b then m1 else m2)"
  by simp

lemma aborting_case_prod:
  "(\<And>a b. aborting (f a b)) \<Longrightarrow> aborting (case x of (a, b) \<Rightarrow> f a b)"
  by (cases x) simp

lemma aborting_case_option:
  "aborting m1 \<Longrightarrow> (\<And>a. aborting (f a)) \<Longrightarrow> aborting (case x of None \<Rightarrow> m1 | Some a \<Rightarrow> f a)"
  by (cases x) simp_all

lemmas aborting_intros =
  aborting_and_then aborting_if aborting_case_prod aborting_case_option aborting_succeed
  aborting_fail aborting_raise_or aborting_get_status aborting_maybe_attach
  aborting_maybe_detach aborting_maybe_enable aborting_maybe_disable

lemma aborting_apply_plan:
  "aborting (apply_plan run loads pro tok en dis attach_n detach_n to_en to_dis result)"
  unfolding apply_plan_def Let_def
  by (intro aborting_intros)

lemma aborting_main: "aborting (main run loads pro p)"
  unfolding main_def Let_def
  by (intro aborting_intros aborting_apply_plan)

subsection \<open>The commands a run gives to the runner\<close>

lemma shaped_succeed: "Q x \<Longrightarrow> shaped pro p (succeed x) Q"
  by (simp add: shaped_def succeed_def)

lemma shaped_fail: "shaped pro p (fail f) Q"
  by (simp add: shaped_def fail_def)

lemma shaped_raise_or: "(\<And>x. r = Inr x \<Longrightarrow> Q x) \<Longrightarrow> shaped pro p (raise_or r) Q"
  by (cases r) (simp_all add: raise_or_def shaped_succeed shaped_fail)

lemma shaped_and_then:
  assumes "shaped pro p m Q" and "\<And>x. Q x \<Longrightarrow> shaped pro p (f x) R"
  shows "shaped pro p (and_then m f) R"
  unfolding shaped_def
proof (intro allI impI)
  fix s :: "'a sys"
  assume g: "good_log pro p s"
  obtain r s1 where ms: "m s = (r, s1)" by (cases "m s")
  from assms(1) g have "case m s of (Inr x, s') \<Rightarrow> good_log pro p s' \<and> Q x
                        | (Inl f, s') \<Rightarrow> good_log pro p s'"
    by (simp add: shaped_def)
  with ms have post: "case r of Inr x \<Rightarrow> good_log pro p s1 \<and> Q x | Inl f \<Rightarrow> good_log pro p s1"
    by (cases r) simp_all
  show "case and_then m f s of (Inr x, s') \<Rightarrow> good_log pro p s' \<and> R x
        | (Inl f, s') \<Rightarrow> good_log pro p s'"
  proof (cases r)
    case (Inl e)
    with ms post show ?thesis by (simp add: and_then_def)
  next
    case (Inr x)
    with post have "good_log pro p s1" and "Q x" by simp_all
    with assms(2) [of x] have "case f x s1 of (Inr y, s') \<Rightarrow> good_log pro p s' \<and> R y
                               | (Inl f, s') \<Rightarrow> good_log pro p s'"
      by (simp add: shaped_def)
    with ms Inr show ?thesis by (simp add: and_then_def)
  qed
qed

lemma shaped_case_prod:
  "(\<And>a b. shaped pro p (f a b) Q) \<Longrightarrow> shaped pro p (case x of (a, b) \<Rightarrow> f a b) Q"
  by (cases x) simp

lemma shaped_execute:
  "pro_command pro p args \<Longrightarrow> shaped pro p (execute run loads args) (\<lambda>_. True)"
  by (auto simp: shaped_def good_log_def execute_eq split: prod.splits sum.splits)

lemma shaped_get_status: "shaped pro p (get_status run loads pro) (\<lambda>_. True)"
  unfolding get_status_def
  by (rule shaped_and_then [OF shaped_execute])
     (simp_all add: pro_command_def shaped_succeed split: prod.splits)

lemma shaped_maybe_attach:
  "token p = Some t \<Longrightarrow> shaped pro p (maybe_attach run loads pro t result) (\<lambda>_. True)"
  unfolding maybe_attach_def
  by (rule shaped_and_then [OF shaped_execute])
     (simp_all add: pro_command_def shaped_succeed split: prod.splits)

lemma shaped_maybe_detach: "shaped pro p (maybe_detach run loads pro result) (\<lambda>_. True)"
  unfolding maybe_detach_def
  by (rule shaped_and_then [OF shaped_execute])
     (simp_all add: pro_command_def shaped_succeed split: prod.splits)

lemma shaped_maybe_enable:
  assumes "te = to_enable (or_empty (enabled p)) C" and "te \<noteq> []"
  shows "shaped pro p (maybe_enable_services run loads pro te result) (\<lambda>_. True)"
  unfolding maybe_enable_services_def
proof (rule shaped_and_then [OF shaped_execute])
  from assms
  show "pro_command pro p ([pro, ''enable'', ''--assume-yes'', ''--format=json''] @ te)"
    by (auto simp: pro_command_def)
qed (simp add: shaped_succeed split: prod.splits)

lemma shaped_maybe_disable:
  assumes "td = to_disable (or_empty (disabled p)) C" and "td \<noteq> []"
  shows "shaped pro p (maybe_disable_services run loads pro td result) (\<lambda>_. True)"
  unfolding maybe_disable_services_def
proof (rule shaped_and_then [OF shaped_execute])
  from assms
  show "pro_command pro p ([pro, ''disable'', ''--assume-yes'', ''--format=json''] @ td)"
    by (auto simp: pro_command_def)
qed (simp add: shaped_succeed split: prod.splits)

lemma shaped_apply_plan:
  assumes tok: "tok = token p"
    and en: "en = or_empty (enabled p)" and dis: "dis = or_empty (disabled p)"
    and te: "to_en = to_enable en C0" and td: "to_dis = to_disable dis C0"
  shows "shaped pro p
           (apply_plan run loads pro tok en dis attach_n detach_n to_en to_dis result)
           (\<lambda>_. True)"
  unfolding apply_plan_def Let_def
proof (rule shaped_and_then [where Q = "plans_of p"])
  have keep: "\<And>c r. plans_of p (c, r, to_en, to_dis)"
    using en dis te td by (auto simp: plans_of_def)
  show "shaped pro p
     (if truthy detach_n
      then and_then (maybe_detach run loads pro result)
             (\<lambda>(c, result1). succeed (False \<or> c, result1, to_en, to_dis))
      else if truthy (py_and attach_n (opt_str tok))
           then case tok of None \<Rightarrow> succeed (False, result, to_en, to_dis)
                | Some t \<Rightarrow>
                    and_then (maybe_attach run loads pro t result)
                      (\<lambda>(c, result1).
                          and_then (get_status run loads pro)
                            (\<lambda>status.
                                and_then (raise_or (collect_enabled_services status))
                                  (\<lambda>current_enabled.
                                      succeed
                                       (False \<or> c, AList.update ''status'' status result1,
                                        to_enable en current_enabled,
                                        to_disable dis current_enabled))))
           else succeed (False, result, to_en, to_dis))
     (plans_of p)"
  proof (cases "truthy detach_n")
    case True
    then show ?thesis
      by (auto intro!: shaped_and_then [OF shaped_maybe_detach] shaped_succeed keep)
  next
    case False
    show ?thesis
    proof (cases tok)
      case None
      with False show ?thesis by (auto intro!: shaped_succeed keep)
    next
      case (Some t)
      with tok have t: "token p = Some t" by simp
      have fresh_plans: "\<And>c r C. plans_of p (c, r, to_enable en C, to_disable dis C)"
        using en dis by (auto simp: plans_of_def)
      from False Some show ?thesis
        by (auto intro!: shaped_and_then [OF shaped_maybe_attach [OF t]]
            shaped_and_then [OF shaped_get_status] shaped_and_then [OF shaped_raise_or]
            shaped_succeed keep fresh_plans)
    qed
  qed
next
  fix x :: "bool \<times> (string \<times> json) list \<times> string list \<times> string list"
  assume q: "plans_of p x"
  obtain changed result1 to_en1 to_dis1 where x: "x = (changed, result1, to_en1, to_dis1)"
    by (cases x)
  from q x obtain C1 C2 where
    c1: "to_en1 = to_enable (or_empty (enabled p)) C1" and
    c2: "to_dis1 = to_disable (or_empty (disabled p)) C2"
    by (auto simp: plans_of_def)
  have step_enable: "shaped pro p
      (if to_en1 \<noteq> []
       then and_then (maybe_enable_services run loads pro to_en1 result1)
              (\<lambda>(c, result2). succeed (changed \<or> c, result2))
       else succeed (changed, result1)) (\<lambda>_. True)"
    by (auto intro!: shaped_and_then [OF shaped_maybe_enable [OF c1]] shaped_succeed)
  have step_disable: "\<And>changed2 result2. shaped pro p
      (if to_dis1 \<noteq> []
       then and_then (maybe_disable_services run loads pro to_dis1 result2)
              (\<lambda>(c, result3). succeed (changed2 \<or> c, result3))
       else succeed (changed2, result2)) (\<lambda>_. True)"
    by (auto intro!: shaped_and_then [OF shaped_maybe_disable [OF c2]] shaped_succeed)
  have step_final: "\<And>changed3 result3. shaped pro p
      (and_then
         (if changed3
          then and_then (get_status run loads pro)
                 (\<lambda>status. succeed (AList.update ''status'' status result3))
          else succeed result3)
         (\<lambda>result4. succeed (AList.update ''changed'' (JBool changed3) result4))) (\<lambda>_. True)"
    by (auto intro!: shaped_and_then [OF shaped_get_status] shaped_and_then [where Q = "\<lambda>_. True"]
        shaped_succeed)
  show "shaped pro p
          (case x of
           (changed, result1, to_en1, to_dis1) \<Rightarrow>
             and_then
              (if to_en1 \<noteq> []
               then and_then (maybe_enable_services run loads pro to_en1 result1)
                      (\<lambda>(c, result2). succeed (changed \<or> c, result2))
               else succeed (changed, result1))
              (\<lambda>(changed2, result2).
                  and_then
                   (if to_dis1 \<noteq> []
                    then and_then (maybe_disable_services run loads pro to_dis1 result2)
                           (\<lambda>(c, result3). succeed (changed2 \<or> c, result3))
                    else succeed (changed2, result2))
                   (\<lambda>(changed3, result3).
                       and_then
                        (if changed3
                         then and_then (get_status run loads pro)
                                (\<lambda>status. succeed (AList.update ''status'' status result3))
                         else succeed result3)
                        (\<lambda>result4.
                            succeed (AList.update ''changed'' (JBool changed3) result4)))))
          (\<lambda>_. True)"
    unfolding x prod.case
    by (rule shaped_and_then [OF step_enable], rule shaped_case_prod,
        rule shaped_and_then [OF step_disable], rule shaped_case_prod, rule step_final)
qed

lemma shaped_and_then_any:
  "shaped pro p m (\<lambda>_. True) \<Longrightarrow> (\<And>x. shaped pro p (f x) R) \<Longrightarrow>
   shaped pro p (and_then m f) R"
  by (rule shaped_and_then)

lemma shaped_raise_or_any: "shaped pro p (raise_or r) (\<lambda>_. True)"
  by (rule shaped_raise_or) simp

lemma shaped_if:
  "shaped pro p m1 Q \<Longrightarrow> shaped pro p m2 Q \<Longrightarrow> shaped pro p (if b then m1 else m2) Q"
  by simp

lemma shaped_main: "shaped pro p (main run loads pro p) (\<lambda>_. True)"
  unfolding main_def Let_def
  by (intro shaped_if shaped_fail shaped_succeed TrueI
      shaped_and_then_any [OF shaped_get_status] shaped_and_then_any [OF shaped_raise_or_any]
      shaped_apply_plan [OF refl refl refl refl refl])

text \<open>
  C7, amended. In a run, a command that exits with a code other than 0 is the last command
  of the run, and the run ends in a \<open>fail_json\<close> that carries the exit code, the standard
  output, the standard error and the argument vector of that command, as it was given to
  \<open>run_command\<close>. Every vector of a run is one of the five shapes of the module and
  starts with the path of the executable; each of the five functions that run a command
  surfaces its own vector when the command fails. For a failing enable that vector is the
  path of the executable followed by \<open>enable\<close>, \<open>--assume-yes\<close>, \<open>--format=json\<close> and the
  services.
\<close>

theorem command_failure_aborts:
  "(calls s = [] \<and> main run loads pro p s = (r, s') \<longrightarrow>
     list_all (\<lambda>c. pro_command pro p (fst c)) (calls s') \<and>
     (\<forall>i < length (calls s'). \<forall>args rc out err.
        calls s' ! i = (args, rc, out, err) \<and> rc \<noteq> 0 \<longrightarrow>
          Suc i = length (calls s') \<and>
          pro_command pro p args \<and> (\<exists>rest. args = pro # rest) \<and>
          r = Inl (Fail_json [(''msg'', JStr ''command failed''), (''rc'', JInt rc),
                              (''stdout'', JStr out), (''stderr'', JStr err),
                              (''cmd'', JList (map JStr args))]))) \<and>
   (run [pro, ''status'', ''--wait'', ''--format=json''] (world s) = ((rc1, out1, err1), w1) \<and> rc1 \<noteq> 0 \<longrightarrow>
      get_status run loads pro s =
        (Inl (Fail_json [(''msg'', JStr ''command failed''), (''rc'', JInt rc1),
                        (''stdout'', JStr out1), (''stderr'', JStr err1),
                        (''cmd'', JList (map JStr [pro, ''status'', ''--wait'', ''--format=json'']))]),
         \<lparr>world = w1, calls = calls s @ [([pro, ''status'', ''--wait'', ''--format=json''], rc1, out1, err1)]\<rparr>)) \<and>
   (run [pro, ''attach'', ''--format=json'', tok] (world s) = ((rc1, out1, err1), w1) \<and> rc1 \<noteq> 0 \<longrightarrow>
      maybe_attach run loads pro tok result s =
        (Inl (Fail_json [(''msg'', JStr ''command failed''), (''rc'', JInt rc1),
                        (''stdout'', JStr out1), (''stderr'', JStr err1),
                        (''cmd'', JList (map JStr [pro, ''attach'', ''--format=json'', tok]))]),
         \<lparr>world = w1, calls = calls s @ [([pro, ''attach'', ''--format=json'', tok], rc1, out1, err1)]\<rparr>)) \<and>
   (run [pro, ''detach'', ''--assume-yes'', ''--format=json''] (world s) = ((rc1, out1, err1), w1) \<and> rc1 \<noteq> 0 \<longrightarrow>
      maybe_detach run loads pro result s =
        (Inl (Fail_json [(''msg'', JStr ''command failed''), (''rc'', JInt rc1),
                        (''stdout'', JStr out1), (''stderr'', JStr err1),
                        (''cmd'', JList (map JStr [pro, ''detach'', ''--assume-yes'', ''--format=json'']))]),
         \<lparr>world = w1, calls = calls s @ [([pro, ''detach'', ''--assume-yes'', ''--format=json''], rc1, out1, err1)]\<rparr>)) \<and>
   (run (pro # ''enable'' # ''--assume-yes'' # ''--format=json'' # to_en) (world s) = ((rc1, out1, err1), w1) \<and> rc1 \<noteq> 0 \<longrightarrow>
      maybe_enable_services run loads pro to_en result s =
        (Inl (Fail_json [(''msg'', JStr ''command failed''), (''rc'', JInt rc1),
                        (''stdout'', JStr out1), (''stderr'', JStr err1),
                        (''cmd'', JList (map JStr (pro # ''enable'' # ''--assume-yes'' # ''--format=json'' # to_en)))]),
         \<lparr>world = w1, calls = calls s @ [((pro # ''enable'' # ''--assume-yes'' # ''--format=json'' # to_en), rc1, out1, err1)]\<rparr>)) \<and>
   (run (pro # ''disable'' # ''--assume-yes'' # ''--format=json'' # to_dis) (world s) = ((rc1, out1, err1), w1) \<and> rc1 \<noteq> 0 \<longrightarrow>
      maybe_disable_services run loads pro to_dis result s =
        (Inl (Fail_json [(''msg'', JStr ''command failed''), (''rc'', JInt rc1),
                        (''stdout'', JStr out1), (''stderr'', JStr err1),
                        (''cmd'', JList (map JStr (pro # ''disable'' # ''--assume-yes'' # ''--format=json'' # to_dis)))]),
         \<lparr>world = w1, calls = calls s @ [((pro # ''disable'' # ''--assume-yes'' # ''--format=json'' # to_dis), rc1, out1, err1)]\<rparr>))"
proof -
  have main_part: "calls s = [] \<and> main run loads pro p s = (r, s') \<longrightarrow>
     list_all (\<lambda>c. pro_command pro p (fst c)) (calls s') \<and>
     (\<forall>i < length (calls s'). \<forall>args rc out err.
        calls s' ! i = (args, rc, out, err) \<and> rc \<noteq> 0 \<longrightarrow>
          Suc i = length (calls s') \<and>
          pro_command pro p args \<and> (\<exists>rest. args = pro # rest) \<and>
          r = Inl (Fail_json [(''msg'', JStr ''command failed''), (''rc'', JInt rc),
                              (''stdout'', JStr out), (''stderr'', JStr err),
                              (''cmd'', JList (map JStr args))]))"
  proof (rule impI, intro conjI allI impI)
    assume a: "calls s = [] \<and> main run loads pro p s = (r, s')"
    from a have "good_log pro p s" by (simp add: good_log_def)
    with shaped_main [of pro p run loads]
    have "case main run loads pro p s of
            (Inr x, s') \<Rightarrow> good_log pro p s' \<and> True
          | (Inl f, s') \<Rightarrow> good_log pro p s'"
      by (simp add: shaped_def)
    with a have "good_log pro p s'"
      by (cases r) simp_all
    then show shapes: "list_all (\<lambda>c. pro_command pro p (fst c)) (calls s')"
      by (simp add: good_log_def)
    fix i args rc out err
    assume i: "i < length (calls s')"
      and c: "calls s' ! i = (args, rc, out, err) \<and> rc \<noteq> 0"
    from shapes nth_mem [OF i] c show pc: "pro_command pro p args"
      by (auto simp: list_all_iff)
    then show "\<exists>rest. args = pro # rest"
      by (auto simp: pro_command_def)
    from a have "ok_log s" by (simp add: ok_log_def)
    with aborting_main [of run loads pro p] have "abort_post (main run loads pro p s)"
      by (simp add: aborting_def)
    with a have post: "abort_post (r, s')" by simp
    from i c have bad: "\<not> ok_log s'"
      unfolding ok_log_def list_all_iff using nth_mem [OF i] by force
    with post obtain f where r: "r = Inl f" by (cases r) (auto simp: abort_post_def)
    with post bad obtain cs args' rc' out' err' where
      cs: "calls s' = cs @ [(args', rc', out', err')]" "list_all (\<lambda>c. fst (snd c) = 0) cs"
        "f = command_failed rc' out' err' args'"
      by (auto simp: abort_post_def)
    have "\<not> i < length cs"
    proof
      assume "i < length cs"
      then have "calls s' ! i \<in> set cs" using cs(1) by (simp add: nth_append)
      with cs(2) c show False by (auto simp: list_all_iff)
    qed
    with i cs(1) have il: "i = length cs" by simp
    then show "Suc i = length (calls s')" using cs(1) by simp
    from il cs(1) c have "(args, rc, out, err) = (args', rc', out', err')" by simp
    with r cs(3)
    show "r = Inl (Fail_json [(''msg'', JStr ''command failed''), (''rc'', JInt rc),
                              (''stdout'', JStr out), (''stderr'', JStr err),
                              (''cmd'', JList (map JStr args))])"
      by (simp add: command_failed_def str_list_def)
  qed
  have exec_part: "execute run loads V s =
      (Inl (Fail_json [(''msg'', JStr ''command failed''), (''rc'', JInt rc1),
                      (''stdout'', JStr out1), (''stderr'', JStr err1),
                      (''cmd'', JList (map JStr V))]),
       \<lparr>world = w1, calls = calls s @ [(V, rc1, out1, err1)]\<rparr>)"
    if "run V (world s) = ((rc1, out1, err1), w1) \<and> rc1 \<noteq> 0" for V
    using that by (simp add: execute_eq command_failed_def str_list_def)
  have p1: "(run [pro, ''status'', ''--wait'', ''--format=json''] (world s) = ((rc1, out1, err1), w1) \<and> rc1 \<noteq> 0 \<longrightarrow>
      get_status run loads pro s =
        (Inl (Fail_json [(''msg'', JStr ''command failed''), (''rc'', JInt rc1),
                        (''stdout'', JStr out1), (''stderr'', JStr err1),
                        (''cmd'', JList (map JStr [pro, ''status'', ''--wait'', ''--format=json'']))]),
         \<lparr>world = w1, calls = calls s @ [([pro, ''status'', ''--wait'', ''--format=json''], rc1, out1, err1)]\<rparr>))"
    by (simp add: get_status_def and_then_def exec_part)
  have p2: "(run [pro, ''attach'', ''--format=json'', tok] (world s) = ((rc1, out1, err1), w1) \<and> rc1 \<noteq> 0 \<longrightarrow>
      maybe_attach run loads pro tok result s =
        (Inl (Fail_json [(''msg'', JStr ''command failed''), (''rc'', JInt rc1),
                        (''stdout'', JStr out1), (''stderr'', JStr err1),
                        (''cmd'', JList (map JStr [pro, ''attach'', ''--format=json'', tok]))]),
         \<lparr>world = w1, calls = calls s @ [([pro, ''attach'', ''--format=json'', tok], rc1, out1, err1)]\<rparr>))"
    by (simp add: maybe_attach_def and_then_def exec_part)
  have p3: "(run [pro, ''detach'', ''--assume-yes'', ''--format=json''] (world s) = ((rc1, out1, err1), w1) \<and> rc1 \<noteq> 0 \<longrightarrow>
      maybe_detach run loads pro result s =
        (Inl (Fail_json [(''msg'', JStr ''command failed''), (''rc'', JInt rc1),
                        (''stdout'', JStr out1), (''stderr'', JStr err1),
                        (''cmd'', JList (map JStr [pro, ''detach'', ''--assume-yes'', ''--format=json'']))]),
         \<lparr>world = w1, calls = calls s @ [([pro, ''detach'', ''--assume-yes'', ''--format=json''], rc1, out1, err1)]\<rparr>))"
    by (simp add: maybe_detach_def and_then_def exec_part)
  have p4: "(run (pro # ''enable'' # ''--assume-yes'' # ''--format=json'' # to_en) (world s) = ((rc1, out1, err1), w1) \<and> rc1 \<noteq> 0 \<longrightarrow>
      maybe_enable_services run loads pro to_en result s =
        (Inl (Fail_json [(''msg'', JStr ''command failed''), (''rc'', JInt rc1),
                        (''stdout'', JStr out1), (''stderr'', JStr err1),
                        (''cmd'', JList (map JStr (pro # ''enable'' # ''--assume-yes'' # ''--format=json'' # to_en)))]),
         \<lparr>world = w1, calls = calls s @ [((pro # ''enable'' # ''--assume-yes'' # ''--format=json'' # to_en), rc1, out1, err1)]\<rparr>))"
    by (simp add: maybe_enable_services_def and_then_def exec_part)
  have p5: "(run (pro # ''disable'' # ''--assume-yes'' # ''--format=json'' # to_dis) (world s) = ((rc1, out1, err1), w1) \<and> rc1 \<noteq> 0 \<longrightarrow>
      maybe_disable_services run loads pro to_dis result s =
        (Inl (Fail_json [(''msg'', JStr ''command failed''), (''rc'', JInt rc1),
                        (''stdout'', JStr out1), (''stderr'', JStr err1),
                        (''cmd'', JList (map JStr (pro # ''disable'' # ''--assume-yes'' # ''--format=json'' # to_dis)))]),
         \<lparr>world = w1, calls = calls s @ [((pro # ''disable'' # ''--assume-yes'' # ''--format=json'' # to_dis), rc1, out1, err1)]\<rparr>))"
    by (simp add: maybe_disable_services_def and_then_def exec_part)
  show ?thesis
    by (intro conjI main_part p1 p2 p3 p4 p5)
qed

lemma failing_enable_run:
  "main attached_host demo_loads ''/usr/bin/pro''
     \<lparr>state = None, token = None, enabled = Some [''livepatch''], disabled = None,
      check_mode = False\<rparr> fresh =
     (Inl (Fail_json [(''msg'', JStr ''command failed''), (''rc'', JInt 1),
                      (''stdout'', JStr []), (''stderr'', JStr ''Failed to enable livepatch''),
                      (''cmd'', JList [JStr ''/usr/bin/pro'', JStr ''enable'', JStr ''--assume-yes'',
                                       JStr ''--format=json'', JStr ''livepatch''])]),
      \<lparr>world = (),
       calls = [([''/usr/bin/pro'', ''status'', ''--wait'', ''--format=json''], 0,
                 attached_status_text, []),
                ([''/usr/bin/pro'', ''enable'', ''--assume-yes'', ''--format=json'', ''livepatch''], 1,
                 [], ''Failed to enable livepatch'')]\<rparr>)"
  by (simp add: eval_defs)

theorem command_failure_aborts_witness:
  "fst (main attached_host demo_loads ''/usr/bin/pro''
          \<lparr>state = None, token = None, enabled = Some [''livepatch''], disabled = None,
           check_mode = False\<rparr> fresh) =
     Inl (Fail_json [(''msg'', JStr ''command failed''), (''rc'', JInt 1),
                     (''stdout'', JStr []), (''stderr'', JStr ''Failed to enable livepatch''),
                     (''cmd'', JList (map JStr [''/usr/bin/pro'', ''enable'', ''--assume-yes'',
                                                ''--format=json'', ''livepatch'']))]) \<and>
   pro_command ''/usr/bin/pro''
     \<lparr>state = None, token = None, enabled = Some [''livepatch''], disabled = None,
      check_mode = False\<rparr>
     [''/usr/bin/pro'', ''enable'', ''--assume-yes'', ''--format=json'', ''livepatch'']"
proof -
  let ?p = "\<lparr>state = None, token = None, enabled = Some [''livepatch''], disabled = None,
             check_mode = False\<rparr>"
  let ?s' = "\<lparr>world = (),
       calls = [([''/usr/bin/pro'', ''status'', ''--wait'', ''--format=json''], 0,
                 attached_status_text, []),
                ([''/usr/bin/pro'', ''enable'', ''--assume-yes'', ''--format=json'', ''livepatch''], 1,
                 [], ''Failed to enable livepatch'')]\<rparr>"
  obtain r where r: "fst (main attached_host demo_loads ''/usr/bin/pro'' ?p fresh) = r"
    by simp
  with failing_enable_run have m: "calls fresh = [] \<and>
      main attached_host demo_loads ''/usr/bin/pro'' ?p fresh = (r, ?s')"
    by (auto simp: fresh_def)
  note t = command_failure_aborts [where s = fresh and run = attached_host and loads = demo_loads
      and pro = "''/usr/bin/pro''" and s' = ?s' and p = ?p and r = r,
      THEN conjunct1, THEN mp, OF m, THEN conjunct2, rule_format, of 1
        "[''/usr/bin/pro'', ''enable'', ''--assume-yes'', ''--format=json'', ''livepatch'']" 1 "[]"
        "''Failed to enable livepatch''"]
  have "r = Inl (Fail_json [(''msg'', JStr ''command failed''), (''rc'', JInt 1),
                     (''stdout'', JStr []), (''stderr'', JStr ''Failed to enable livepatch''),
                     (''cmd'', JList (map JStr [''/usr/bin/pro'', ''enable'', ''--assume-yes'',
                                                ''--format=json'', ''livepatch'']))]) \<and>
        pro_command ''/usr/bin/pro'' ?p
          [''/usr/bin/pro'', ''enable'', ''--assume-yes'', ''--format=json'', ''livepatch'']"
    using t by simp
  with r show ?thesis by simp
qed

text \<open>
  The claim as stated fails in its last part: the vector that the failure of an enable of
  \<open>livepatch\<close> carries starts with the path of the executable, so it is not the four
  words the claim gives.
\<close>

theorem failing_enable_cmd_counterexample:
  "surfaced_cmd (fst (main attached_host demo_loads ''/usr/bin/pro''
          \<lparr>state = None, token = None, enabled = Some [''livepatch''], disabled = None,
           check_mode = False\<rparr> fresh)) =
     Some (JList [JStr ''/usr/bin/pro'', JStr ''enable'', JStr ''--assume-yes'',
                  JStr ''--format=json'', JStr ''livepatch'']) \<and>
   surfaced_cmd (fst (main attached_host demo_loads ''/usr/bin/pro''
          \<lparr>state = None, token = None, enabled = Some [''livepatch''], disabled = None,
           check_mode = False\<rparr> fresh)) \<noteq>
     Some (JList [JStr ''enable'', JStr ''--assume-yes'', JStr ''--format=json'',
                  JStr ''livepatch''])"
  by (simp add: failing_enable_run surfaced_cmd_def)

end
